theory Spec2Isabelle
  imports Complex_Main "HOL-Library.Word"
begin

section \<open>Values of the Python program\<close>

text \<open>
  The player of \<^verbatim>\<open>musicalbeeps/beepsplayer.py\<close> computes with Python floats, Python
  strings and numpy arrays. In this development a finite float is a real number (rounding
  is not modelled), the non-finite floats are values of their own because \<^verbatim>\<open>int\<close> raises
  on them, a string is a list of 8-bit characters (code points 0 to 255), and a numpy
  array of floats is a list of reals.
\<close>

datatype pyfloat = Flt real | PosInf | NegInf | NaN

text \<open>The exceptions that leave the methods of the class.\<close>

datatype error = ValueError | TypeError | OverflowError | OSError

text \<open>
  The four messages the resolver prints to \<^verbatim>\<open>sys.stderr\<close>, each with the text it quotes:
  \<^item> \<open>InvalidLetter s\<close> is \<^verbatim>\<open>Error: invalid note: 's'\<close> of \<^verbatim>\<open>__set_base_frequency\<close>,
  \<^item> \<open>InvalidOctave s\<close> is \<^verbatim>\<open>Error: invalid octave: 's'\<close> of \<^verbatim>\<open>__set_octave\<close>,
  \<^item> \<open>InvalidSymbol s\<close> is \<^verbatim>\<open>Error: invalid symbol: 's'\<close> of \<^verbatim>\<open>__set_semitone\<close>,
  \<^item> \<open>InvalidShape s\<close> is \<^verbatim>\<open>Errror: invalid note: 's'\<close> of \<^verbatim>\<open>__calc_frequency\<close>.
\<close>

datatype diagnostic =
    InvalidLetter string
  | InvalidOctave string
  | InvalidSymbol string
  | InvalidShape string

text \<open>The two lines \<^verbatim>\<open>__print_played_note\<close> prints to standard output.\<close>

datatype progress =
    Pausing pyfloat
  | Playing string real pyfloat

text \<open>
  What the player does to the world, in the order it does it: a line on the diagnostic
  stream, a line on standard output, a call of \<^verbatim>\<open>time.sleep\<close>, and a buffer handed to
  \<^verbatim>\<open>simpleaudio.play_buffer\<close>.
\<close>

datatype event =
    Stderr diagnostic
  | Stdout progress
  | Sleep pyfloat
  | PlayBuffer "16 word list"

section \<open>The player object\<close>

text \<open>
  The fields of \<^verbatim>\<open>Player\<close>. The dictionary \<^verbatim>\<open>note_frequencies\<close> is never assigned after
  construction and is the constant \<open>note_frequencies\<close> below. The play object is the
  number of the buffer it plays. The last field is not a field of the Python object: it
  records the effects performed so far, oldest first.
\<close>

record player =
  volume :: real
  mute_output :: bool
  rate :: nat
  freq :: real
  fade :: nat
  valid_note :: bool
  fade_in :: "real list"
  fade_out :: "real list"
  play_obj :: "nat option"
  destructor_sleep :: pyfloat
  effects :: "event list"

text \<open>Frequencies for the lowest octave.\<close>

definition note_frequencies :: "string \<rightharpoonup> real" where
  "note_frequencies =
     [''A'' \<mapsto> 27.50000,
      ''B'' \<mapsto> 30.86771,
      ''C'' \<mapsto> 16.35160,
      ''D'' \<mapsto> 18.35405,
      ''E'' \<mapsto> 20.60172,
      ''F'' \<mapsto> 21.82676,
      ''G'' \<mapsto> 24.49971]"

text \<open>
  \<^verbatim>\<open>np.arange(start, stop, step)\<close> on floats: \<open>\<lceil>(stop - start) / step\<rceil>\<close> values
  \<open>start + i * step\<close>.
\<close>

definition arange :: "real \<Rightarrow> real \<Rightarrow> real \<Rightarrow> real list" where
  "arange start stop step =
     map (\<lambda>i. start + real i * step) [0..<nat \<lceil>(stop - start) / step\<rceil>]"

definition init_player :: "real \<Rightarrow> bool \<Rightarrow> player" where
  "init_player vol mute =
     \<lparr>volume = vol,
      mute_output = mute,
      rate = 44100,
      freq = 0,
      fade = 800,
      valid_note = True,
      fade_in = arange 0 1 (1 / real 800),
      fade_out = arange 1 0 (- 1 / real 800),
      play_obj = None,
      destructor_sleep = Flt 0,
      effects = []\<rparr>"

text \<open>\<^verbatim>\<open>Player.__init__\<close>: the volume is checked before anything is built.\<close>

definition Player :: "real \<Rightarrow> bool \<Rightarrow> error + player" where
  "Player vol mute =
     (if vol < 0 \<or> vol > 1 then Inl ValueError else Inr (init_player vol mute))"

text \<open>The module's \<^verbatim>\<open>default_player = Player()\<close>, with volume 0.3 and output not muted.\<close>

definition default_player :: player where
  "default_player = init_player 0.3 False"

definition emit :: "event \<Rightarrow> player \<Rightarrow> player" where
  "emit e p = p\<lparr>effects := effects p @ [e]\<rparr>"

section \<open>The frequency resolver\<close>

text \<open>
  \<^verbatim>\<open>str.upper\<close> on one character. Of the code points 0 to 255 only \<^verbatim>\<open>a\<close> to \<^verbatim>\<open>z\<close> are
  mapped to an ASCII capital, so for the look-up in \<open>note_frequencies\<close> the other
  characters can stay as they are.
\<close>

definition upper :: "char \<Rightarrow> char" where
  "upper c =
     (case map_of (zip ''abcdefghijklmnopqrstuvwxyz'' ''ABCDEFGHIJKLMNOPQRSTUVWXYZ'') c of
        Some u \<Rightarrow> u
      | None \<Rightarrow> c)"

text \<open>
  \<^verbatim>\<open>int(s)\<close> for the strings the resolver passes: the default \<^verbatim>\<open>"4"\<close> or the slice
  \<^verbatim>\<open>note[1:2]\<close>, of at most one character. On such a string \<^verbatim>\<open>int\<close> returns the value of
  a decimal digit and raises on everything else (\<open>None\<close>).
\<close>

definition py_int :: "string \<Rightarrow> int option" where
  "py_int s =
     (case s of
        [c] \<Rightarrow> map_of (zip ''0123456789'' [0, 1, 2, 3, 4, 5, 6, 7, 8, 9]) c
      | _ \<Rightarrow> None)"

text \<open>The slice \<^verbatim>\<open>s[i:j]\<close> for \<open>0 \<le> i \<le> j\<close>.\<close>

definition slice :: "nat \<Rightarrow> nat \<Rightarrow> 'a list \<Rightarrow> 'a list" where
  "slice i j s = take (j - i) (drop i s)"

definition set_base_frequency :: "string \<Rightarrow> player \<Rightarrow> player" where
  "set_base_frequency note p =
     (let letter = map upper (slice 0 1 note) in
      case note_frequencies letter of
        Some f \<Rightarrow> p\<lparr>freq := f\<rparr>
      | None \<Rightarrow> emit (Stderr (InvalidLetter (slice 0 1 note))) (p\<lparr>valid_note := False\<rparr>))"

definition set_octave :: "string \<Rightarrow> player \<Rightarrow> player" where
  "set_octave octave p =
     (if \<not> valid_note p then p
      else case py_int octave of
        None \<Rightarrow> emit (Stderr (InvalidOctave octave)) (p\<lparr>valid_note := False\<rparr>)
      | Some octaveValue \<Rightarrow>
          if octaveValue < 0 \<or> octaveValue > 8
          then emit (Stderr (InvalidOctave octave)) (p\<lparr>valid_note := False\<rparr>)
          else p\<lparr>freq := freq p * 2 ^ nat octaveValue\<rparr>)"

definition set_semitone :: "string \<Rightarrow> player \<Rightarrow> player" where
  "set_semitone symbol p =
     (if \<not> valid_note p then p
      else if symbol = ''#'' then p\<lparr>freq := freq p * 2 powr (1 / 12)\<rparr>
      else if symbol = ''b'' then p\<lparr>freq := freq p / 2 powr (1 / 12)\<rparr>
      else emit (Stderr (InvalidSymbol symbol)) (p\<lparr>valid_note := False\<rparr>))"

definition calc_frequency :: "string \<Rightarrow> player \<Rightarrow> player" where
  "calc_frequency note p =
     (let p1 = set_base_frequency note p in
      if length note = 1 then set_octave ''4'' p1
      else if length note = 2 then
        (if slice 1 2 note = ''#'' \<or> slice 1 2 note = ''b''
         then set_semitone (slice 1 2 note) (set_octave ''4'' p1)
         else set_octave (slice 1 2 note) p1)
      else if length note = 3 then
        set_semitone (slice 2 3 note) (set_octave (slice 1 2 note) p1)
      else if valid_note p1
        then (emit (Stderr (InvalidShape note)) p1)\<lparr>valid_note := False\<rparr>
      else p1)"

text \<open>
  Resolving one token the way \<^verbatim>\<open>play_note\<close> does: the flag is set, the frequency is
  computed, and the note counts when the flag is still set.
\<close>

definition resolve :: "string \<Rightarrow> real option" where
  "resolve note =
     (let p = calc_frequency note (default_player\<lparr>valid_note := True\<rparr>) in
      if valid_note p then Some (freq p) else None)"

text \<open>The diagnostics a resolution from a fresh player prints.\<close>

definition resolve_diagnostics :: "string \<Rightarrow> event list" where
  "resolve_diagnostics note =
     effects (calc_frequency note (default_player\<lparr>valid_note := True\<rparr>))"

section \<open>The waveform synthesizer\<close>

text \<open>
  \<^verbatim>\<open>np.linspace(start, stop, num, endpoint)\<close> for \<open>num \<ge> 0\<close>: \<open>num\<close> values
  \<open>start + i * step\<close>, where the step divides the interval by \<open>num - 1\<close> when the end
  point is included and by \<open>num\<close> when it is not. A negative \<open>num\<close> raises, which the
  caller below checks.
\<close>

definition linspace :: "real \<Rightarrow> real \<Rightarrow> nat \<Rightarrow> bool \<Rightarrow> real list" where
  "linspace start stop num endpoint =
     map (\<lambda>i. start + real i * ((stop - start) / real (if endpoint then num - 1 else num)))
       [0..<num]"

text \<open>The default of the parameter \<^verbatim>\<open>wave_variation_mutlipliers\<close>.\<close>

definition default_multipliers :: "real list" where
  "default_multipliers = linspace (- 10) 2 5 True"

text \<open>
  The product of a float and the (integer) sample rate. On finite floats it is the exact
  product, where the code's product is rounded to a float and overflows to an infinity:
  the two give different sample counts where the rounding crosses an integer (the code
  has \<^verbatim>\<open>int(0.57 * 44100) = 25136\<close>, the exact product is 25137). They agree wherever
  the exact product is a float, as at the durations 0 and 0.5 of the statements below.
\<close>

definition fmul_nat :: "pyfloat \<Rightarrow> nat \<Rightarrow> pyfloat" where
  "fmul_nat x k =
     (case x of
        Flt r \<Rightarrow> Flt (r * real k)
      | PosInf \<Rightarrow> if k = 0 then NaN else PosInf
      | NegInf \<Rightarrow> if k = 0 then NaN else NegInf
      | NaN \<Rightarrow> NaN)"

text \<open>Rounding towards zero, as \<^verbatim>\<open>int\<close> on a float and a C cast do.\<close>

definition trunc :: "real \<Rightarrow> int" where
  "trunc r = (if 0 \<le> r then \<lfloor>r\<rfloor> else \<lceil>r\<rceil>)"

text \<open>\<^verbatim>\<open>int(x)\<close> on a float: it raises on a NaN and on an infinity.\<close>

definition int_of_float :: "pyfloat \<Rightarrow> error + int" where
  "int_of_float x =
     (case x of
        Flt r \<Rightarrow> Inr (trunc r)
      | PosInf \<Rightarrow> Inl OverflowError
      | NegInf \<Rightarrow> Inl OverflowError
      | NaN \<Rightarrow> Inl ValueError)"

text \<open>The finite value of a float that \<open>int_of_float\<close> has accepted.\<close>

definition real_of_float :: "pyfloat \<Rightarrow> real" where
  "real_of_float x = (case x of Flt r \<Rightarrow> r | _ \<Rightarrow> 0)"

text \<open>\<^verbatim>\<open>np.mean(waves, axis=0)\<close> on rows of \<open>n\<close> columns: the mean of every column.\<close>

definition mean_axis0 :: "nat \<Rightarrow> real list list \<Rightarrow> real list" where
  "mean_axis0 n rows =
     map (\<lambda>j. sum_list (map (\<lambda>row. row ! j) rows) / real (length rows)) [0..<n]"

text \<open>
  Lines 118 to 120: the fade. The slice \<^verbatim>\<open>audio[:fade]\<close> is multiplied by the rising
  ramp first, then the slice \<^verbatim>\<open>audio[-fade:]\<close> of the result by the falling ramp. Both
  ramps have \<open>fade\<close> elements in every player that \<open>init_player\<close> builds, so the
  element-wise products are between lists of one length.
\<close>

definition apply_fade :: "player \<Rightarrow> real list \<Rightarrow> real list" where
  "apply_fade p audio =
     (if length audio > fade p then
        let a1 = map2 (*) (take (fade p) audio) (fade_in p) @ drop (fade p) audio;
            k = length a1 - fade p
        in take k a1 @ map2 (*) (drop k a1) (fade_out p)
      else audio)"

text \<open>\<^verbatim>\<open>astype(np.int16)\<close> on a value within the range of the type.\<close>

definition astype_int16 :: "real \<Rightarrow> 16 word" where
  "astype_int16 x = word_of_int (trunc x)"

text \<open>
  \<^verbatim>\<open>generate_note_waveform\<close>. The parameter \<open>nan16\<close> is the sample numpy's cast to
  \<^verbatim>\<open>int16\<close> gives for a NaN, which depends on the platform. The method raises
  \<^item> what \<^verbatim>\<open>int\<close> raises on a duration that is not finite,
  \<^item> \<^verbatim>\<open>ValueError\<close> in \<^verbatim>\<open>np.linspace\<close> when the number of samples is negative,
  \<^item> \<^verbatim>\<open>TypeError\<close> in \<^verbatim>\<open>len(audio)\<close> when there is no multiplier: the mean of the
    one-dimensional \<^verbatim>\<open>waves\<close> is then a scalar,
  \<^item> \<^verbatim>\<open>ValueError\<close> in \<^verbatim>\<open>np.max\<close> when the array is empty.
  A peak of zero makes the scale factor infinite and every sample a NaN.
\<close>

definition generate_note_waveform ::
    "16 word \<Rightarrow> real list \<Rightarrow> player \<Rightarrow> pyfloat \<Rightarrow> error + 16 word list" where
  "generate_note_waveform nan16 wave_variation_mutlipliers p duration =
     (case int_of_float (fmul_nat duration (rate p)) of
        Inl e \<Rightarrow> Inl e
      | Inr n \<Rightarrow>
          if n < 0 then Inl ValueError
          else
            let t = linspace 0 (real_of_float duration) (nat n) False;
                waves = replicate (length t) 0 #
                  map (\<lambda>i. map (\<lambda>x. sin (2 * pi * freq p * x * i)) t)
                    wave_variation_mutlipliers;
                audio = mean_axis0 (length t) waves
            in
              if wave_variation_mutlipliers = [] then Inl TypeError
              else if audio = [] then Inl ValueError
              else
                let peak = Max (set (map abs audio)) in
                if peak = 0 then Inr (replicate (length audio) nan16)
                else
                  Inr (map astype_int16
                        (apply_fade p
                          (map (\<lambda>x. x * volume p)
                            (map (\<lambda>x. x * (32767 / peak)) audio)))))"

section \<open>The tune sequencer\<close>

text \<open>\<^verbatim>\<open>str.isspace\<close> on the code points 0 to 255.\<close>

definition isspace :: "char \<Rightarrow> bool" where
  "isspace c \<longleftrightarrow> (of_char c :: nat) \<in> {9, 10, 11, 12, 13, 28, 29, 30, 31, 32, 133, 160}"

definition strip :: "string \<Rightarrow> string" where
  "strip s = rev (dropWhile isspace (rev (dropWhile isspace s)))"

text \<open>\<^verbatim>\<open>s.split(sep)\<close> for a separator of one character: \<open>s\<close> is cut at every \<open>sep\<close>.\<close>

fun split :: "char \<Rightarrow> string \<Rightarrow> string list" where
  "split sep [] = [[]]"
| "split sep (c # cs) =
     (if c = sep then [] # split sep cs
      else case split sep cs of
             [] \<Rightarrow> [[c]]
           | w # ws \<Rightarrow> (c # w) # ws)"

text \<open>A Python value that is a string or a float.\<close>

datatype pyvalue = Str string | Float pyfloat

text \<open>
  Lines 184 to 187: unpacking \<^verbatim>\<open>line.split(":")\<close> into two names raises unless the list
  has exactly two elements, and then the whole line is the note and the duration is the
  float 0.5.
\<close>

definition split_line :: "string \<Rightarrow> string \<times> pyvalue" where
  "split_line line =
     (case split (CHR '':'') line of
        [note, duration] \<Rightarrow> (note, Str duration)
      | _ \<Rightarrow> (line, Float (Flt 0.5)))"

text \<open>
  Lines 189 to 192. \<^verbatim>\<open>float\<close> returns a float as it is; on a string it is Python's
  parser of float literals, the parameter \<open>parse_float\<close>, which raises (\<open>None\<close>) on
  a text that is no float.
\<close>

definition to_duration :: "(string \<Rightarrow> pyfloat option) \<Rightarrow> pyvalue \<Rightarrow> pyfloat" where
  "to_duration parse_float duration =
     (case duration of
        Float x \<Rightarrow> x
      | Str text \<Rightarrow> (case parse_float text of Some x \<Rightarrow> x | None \<Rightarrow> Flt 0.5))"

text \<open>
  The loop of \<^verbatim>\<open>generate_tune_waveform\<close> over the lines, with the list \<^verbatim>\<open>notes_waves\<close>
  and the player it updates. An exception of the synthesizer ends the loop; the player
  keeps what was assigned before.
\<close>

fun tune_loop ::
    "(string \<Rightarrow> pyfloat option) \<Rightarrow> 16 word \<Rightarrow> real list \<Rightarrow> player \<Rightarrow> 16 word list list \<Rightarrow>
     string list \<Rightarrow> (error + 16 word list list) \<times> player" where
  "tune_loop parse_float nan16 mults p notes_waves [] = (Inr notes_waves, p)"
| "tune_loop parse_float nan16 mults p notes_waves (l # lines) =
     (let line = strip l in
      if length line > 0 then
        let (note, duration_text) = split_line line;
            duration = to_duration parse_float duration_text;
            p' = calc_frequency note p
        in
          if valid_note p' then
            (case generate_note_waveform nan16 mults p' duration of
               Inl e \<Rightarrow> (Inl e, p')
             | Inr w \<Rightarrow> tune_loop parse_float nan16 mults p' (notes_waves @ [w]) lines)
          else tune_loop parse_float nan16 mults p' notes_waves lines
      else tune_loop parse_float nan16 mults p notes_waves lines)"

text \<open>\<^verbatim>\<open>np.concatenate\<close> raises on an empty list of arrays.\<close>

definition np_concatenate :: "'a list list \<Rightarrow> error + 'a list" where
  "np_concatenate arrays = (if arrays = [] then Inl ValueError else Inr (concat arrays))"

definition generate_tune_waveform ::
    "(string \<Rightarrow> pyfloat option) \<Rightarrow> 16 word \<Rightarrow> real list \<Rightarrow> player \<Rightarrow> string list \<Rightarrow>
     (error + 16 word list) \<times> player" where
  "generate_tune_waveform parse_float nan16 mults p lines =
     (case tune_loop parse_float nan16 mults p [] lines of
        (Inl e, p') \<Rightarrow> (Inl e, p')
      | (Inr notes_waves, p') \<Rightarrow> (np_concatenate notes_waves, p'))"

section \<open>Playback\<close>

text \<open>
  The audio device is outside the program. For a play object \<open>h\<close>, \<open>polls h = Some k\<close>
  says that \<^verbatim>\<open>is_playing()\<close> answers \<^verbatim>\<open>True\<close> \<open>k\<close> times and \<^verbatim>\<open>False\<close> from then on, and
  \<open>polls h = None\<close> that it answers \<^verbatim>\<open>True\<close> for ever. The loop of
  \<^verbatim>\<open>__wait_for_prev_sound\<close> has an empty body, so it returns the player unchanged when
  the answers end and does not return (\<open>None\<close>) when they do not.
\<close>

definition wait_for_prev_sound :: "(nat \<Rightarrow> nat option) \<Rightarrow> player \<Rightarrow> player option" where
  "wait_for_prev_sound polls p =
     (case play_obj p of
        None \<Rightarrow> Some p
      | Some h \<Rightarrow> (case polls h of None \<Rightarrow> None | Some k \<Rightarrow> Some p))"

text \<open>
  The playback methods return \<open>None\<close> when they do not return, and otherwise the
  exception they raise, if any, with the player as it then is.
\<close>

type_synonym outcome = "(error option \<times> player) option"

text \<open>
  \<^verbatim>\<open>__write_stream\<close>. The new play object is numbered by the position of its buffer in
  the effects.
\<close>

definition write_stream ::
    "(nat \<Rightarrow> nat option) \<Rightarrow> 16 word \<Rightarrow> pyfloat \<Rightarrow> 16 word list option \<Rightarrow> player \<Rightarrow> outcome" where
  "write_stream polls nan16 duration audio p =
     (case (case audio of
              None \<Rightarrow> generate_note_waveform nan16 default_multipliers p duration
            | Some a \<Rightarrow> Inr a) of
        Inl e \<Rightarrow> Some (Some e, p)
      | Inr a \<Rightarrow>
          (case wait_for_prev_sound polls p of
             None \<Rightarrow> None
           | Some p1 \<Rightarrow> Some (None, (emit (PlayBuffer a) p1)\<lparr>play_obj := Some (length (effects p1))\<rparr>)))"

definition print_played_note :: "string \<Rightarrow> pyfloat \<Rightarrow> player \<Rightarrow> player" where
  "print_played_note note duration p =
     (if mute_output p \<or> \<not> valid_note p then p
      else if note = ''pause'' then emit (Stdout (Pausing duration)) p
      else emit (Stdout (Playing note (freq p) duration)) p)"

text \<open>
  \<^verbatim>\<open>time.sleep\<close> converts the length to a 64-bit count of nanoseconds, which raises on
  a NaN and on a length that does not fit, and then raises on a negative length.
\<close>

definition time_sleep :: "pyfloat \<Rightarrow> player \<Rightarrow> error + player" where
  "time_sleep duration p =
     (case duration of
        Flt r \<Rightarrow>
          if 2 ^ 63 \<le> r * 10 ^ 9 \<or> r * 10 ^ 9 < - (2 ^ 63) then Inl OverflowError
          else if r < 0 then Inl ValueError
          else Inr (emit (Sleep duration) p)
      | NaN \<Rightarrow> Inl ValueError
      | _ \<Rightarrow> Inl OverflowError)"

definition play_note ::
    "(nat \<Rightarrow> nat option) \<Rightarrow> 16 word \<Rightarrow> string \<Rightarrow> pyfloat \<Rightarrow> player \<Rightarrow> outcome" where
  "play_note polls nan16 note duration p =
     (let p0 = p\<lparr>valid_note := True\<rparr> in
      if note = ''pause'' then
        (case wait_for_prev_sound polls p0 of
           None \<Rightarrow> None
         | Some p1 \<Rightarrow>
             let p2 = print_played_note note duration p1 in
             (case time_sleep duration p2 of
                Inl e \<Rightarrow> Some (Some e, p2)
              | Inr p3 \<Rightarrow> Some (None, p3\<lparr>destructor_sleep := Flt 0\<rparr>)))
      else
        let p1 = calc_frequency note p0 in
        if valid_note p1 then
          (case write_stream polls nan16 duration None p1 of
             None \<Rightarrow> None
           | Some (Some e, p2) \<Rightarrow> Some (Some e, p2)
           | Some (None, p2) \<Rightarrow>
               Some (None, (print_played_note note duration p2)\<lparr>destructor_sleep := duration\<rparr>))
        else Some (None, p1))"

text \<open>
  The argument of \<^verbatim>\<open>play_tune\<close>: a string (the path of a file of lines), a list of lines,
  or a value of any other type. \<open>files\<close> gives the lines of the files that can be opened.
\<close>

datatype tune_arg = TuneStr string | TuneList "string list" | TuneOther

definition play_tune ::
    "(nat \<Rightarrow> nat option) \<Rightarrow> (string \<Rightarrow> pyfloat option) \<Rightarrow> 16 word \<Rightarrow> (string \<rightharpoonup> string list) \<Rightarrow>
     tune_arg \<Rightarrow> real list \<Rightarrow> player \<Rightarrow> outcome" where
  "play_tune polls parse_float nan16 files tune mults p =
     (let play = (\<lambda>lines.
            case generate_tune_waveform parse_float nan16 mults p lines of
              (Inl e, p') \<Rightarrow> Some (Some e, p')
            | (Inr audio, p') \<Rightarrow> write_stream polls nan16 (Flt 0.5) (Some audio) p')
      in case tune of
           TuneStr path \<Rightarrow>
             (case files path of None \<Rightarrow> Some (Some OSError, p) | Some lines \<Rightarrow> play lines)
         | TuneList lines \<Rightarrow> play lines
         | TuneOther \<Rightarrow> Some (Some TypeError, p))"

section \<open>The specification's reading of a token and of a line\<close>

text \<open>
  The data model of the specification, in its own words: a note has a letter (one of A
  to G, in either case), an octave (0 to 8) and an accidental (none, sharp or flat). A
  token of one character is a letter in octave 4; of two characters, a letter and either
  an accidental in octave 4 or an octave digit; of three, a letter, an octave digit and
  an accidental.
\<close>

datatype accidental = Natural | Sharp | Flat

definition spec_letter :: "char \<Rightarrow> bool" where
  "spec_letter c \<longleftrightarrow> upper c \<in> set ''ABCDEFG''"

definition spec_octave :: "char \<Rightarrow> nat option" where
  "spec_octave c = map_of (zip ''012345678'' [0, 1, 2, 3, 4, 5, 6, 7, 8]) c"

definition spec_accidental :: "char \<Rightarrow> accidental option" where
  "spec_accidental c =
     (if c = CHR ''#'' then Some Sharp else if c = CHR ''b'' then Some Flat else None)"

fun spec_note :: "string \<Rightarrow> (char \<times> nat \<times> accidental) option" where
  "spec_note [l] = (if spec_letter l then Some (l, 4, Natural) else None)"
| "spec_note [l, c] =
     (if spec_letter l then
        (case spec_accidental c of
           Some a \<Rightarrow> Some (l, 4, a)
         | None \<Rightarrow> (case spec_octave c of Some n \<Rightarrow> Some (l, n, Natural) | None \<Rightarrow> None))
      else None)"
| "spec_note [l, c, d] =
     (if spec_letter l then
        (case (spec_octave c, spec_accidental d) of
           (Some n, Some a) \<Rightarrow> Some (l, n, a)
         | _ \<Rightarrow> None)
      else None)"
| "spec_note _ = None"

text \<open>
  The tone frequency of the specification: the table's entry times two to the octave,
  then multiplied by the twelfth root of two if sharp, divided by it if flat.
\<close>

definition spec_frequency :: "char \<times> nat \<times> accidental \<Rightarrow> real option" where
  "spec_frequency ns =
     (case ns of (l, n, a) \<Rightarrow>
        (case note_frequencies [upper l] of
           None \<Rightarrow> None
         | Some f \<Rightarrow>
             Some (case a of
                     Natural \<Rightarrow> f * 2 ^ n
                   | Sharp \<Rightarrow> f * 2 ^ n * 2 powr (1 / 12)
                   | Flat \<Rightarrow> f * 2 ^ n / 2 powr (1 / 12))))"

definition spec_resolve :: "string \<Rightarrow> real option" where
  "spec_resolve token = (case spec_note token of None \<Rightarrow> None | Some ns \<Rightarrow> spec_frequency ns)"

text \<open>
  The specification's reading of a line: it is split on the first colon, and without a
  colon the whole line is the token and there is no duration text.
\<close>

definition spec_split_line :: "string \<Rightarrow> string \<times> string option" where
  "spec_split_line line =
     (takeWhile (\<lambda>c. c \<noteq> CHR '':'') line,
      if CHR '':'' \<in> set line then Some (tl (dropWhile (\<lambda>c. c \<noteq> CHR '':'') line)) else None)"

section \<open>Auxiliary notions for the statements\<close>

text \<open>
  The fields that only the constructor assigns have the values the constructor gives
  them. No method of the class assigns them.
\<close>

definition constants_kept :: "player \<Rightarrow> bool" where
  "constants_kept p \<longleftrightarrow>
     rate p = 44100 \<and> fade p = 800
     \<and> fade_in p = arange 0 1 (1 / real 800)
     \<and> fade_out p = arange 1 0 (- 1 / real 800)"

text \<open>
  The buffer of one note synthesized on its own: the token is resolved from a set flag,
  as \<^verbatim>\<open>play_note\<close> does, and the waveform is generated for the duration.
\<close>

definition note_waveform ::
    "16 word \<Rightarrow> real list \<Rightarrow> player \<Rightarrow> string \<Rightarrow> pyfloat \<Rightarrow> error + 16 word list" where
  "note_waveform nan16 mults p note duration =
     generate_note_waveform nan16 mults (calc_frequency note (p\<lparr>valid_note := True\<rparr>)) duration"

text \<open>
  The wave of \<^verbatim>\<open>generate_note_waveform\<close> before its fade step, for a duration the method
  accepts: the mean of the rows (lines 105 to 113), its peak (line 115), and the wave
  scaled to the peak and by the volume (lines 115 and 116).
\<close>

definition averaged_wave :: "real list \<Rightarrow> player \<Rightarrow> pyfloat \<Rightarrow> real list" where
  "averaged_wave mults p duration =
     (case int_of_float (fmul_nat duration (rate p)) of
        Inl e \<Rightarrow> []
      | Inr n \<Rightarrow>
          let t = linspace 0 (real_of_float duration) (nat n) False in
          mean_axis0 (length t)
            (replicate (length t) 0 #
             map (\<lambda>i. map (\<lambda>x. sin (2 * pi * freq p * x * i)) t) mults))"

definition wave_peak :: "real list \<Rightarrow> player \<Rightarrow> pyfloat \<Rightarrow> real" where
  "wave_peak mults p duration = Max (set (map abs (averaged_wave mults p duration)))"

definition scaled_wave :: "real list \<Rightarrow> player \<Rightarrow> pyfloat \<Rightarrow> real list" where
  "scaled_wave mults p duration =
     map (\<lambda>x. x * volume p)
       (map (\<lambda>x. x * (32767 / wave_peak mults p duration)) (averaged_wave mults p duration))"

section \<open>Properties of the resolver\<close>

text \<open>The resolver on each shape of token: the slices are the characters themselves.\<close>

lemma calc_frequency_shapes:
  "calc_frequency [] p =
     (let p1 = set_base_frequency [] p in
      if valid_note p1 then (emit (Stderr (InvalidShape [])) p1)\<lparr>valid_note := False\<rparr> else p1)"
  "calc_frequency [a] p = set_octave ''4'' (set_base_frequency [a] p)"
  "calc_frequency [a, b] p =
     (if b = CHR ''#'' \<or> b = CHR ''b''
      then set_semitone [b] (set_octave ''4'' (set_base_frequency [a, b] p))
      else set_octave [b] (set_base_frequency [a, b] p))"
  "calc_frequency [a, b, c] p = set_semitone [c] (set_octave [b] (set_base_frequency [a, b, c] p))"
  "calc_frequency (a # b # c # d # ds) p =
     (let p1 = set_base_frequency (a # b # c # d # ds) p in
      if valid_note p1
      then (emit (Stderr (InvalidShape (a # b # c # d # ds))) p1)\<lparr>valid_note := False\<rparr>
      else p1)"
  by (simp_all add: calc_frequency_def slice_def Let_def)

lemma set_base_frequency_Nil:
  "set_base_frequency [] p = emit (Stderr (InvalidLetter [])) (p\<lparr>valid_note := False\<rparr>)"
  by (simp add: set_base_frequency_def slice_def note_frequencies_def)

lemma set_base_frequency_Cons:
  "set_base_frequency (a # cs) p =
     (case note_frequencies [upper a] of
        Some f \<Rightarrow> p\<lparr>freq := f\<rparr>
      | None \<Rightarrow> emit (Stderr (InvalidLetter [a])) (p\<lparr>valid_note := False\<rparr>))"
  by (simp add: set_base_frequency_def slice_def split: option.splits)

lemma py_int_default_octave: "py_int ''4'' = Some 4"
  by (simp add: py_int_def)

lemmas resolver_defs =
  calc_frequency_shapes set_base_frequency_Nil set_base_frequency_Cons set_octave_def
  set_semitone_def emit_def py_int_default_octave Let_def

text \<open>
  The flag is never set by the resolver: a token leaves it set exactly when it was set
  before and the token resolves on its own.
\<close>

lemma calc_frequency_valid:
  "valid_note (calc_frequency tok p) \<longleftrightarrow> valid_note p \<and> resolve tok \<noteq> None"
  by (cases tok rule: spec_note.cases)
     (simp_all add: resolver_defs resolve_def split: option.splits)

lemma calc_frequency_freq:
  "valid_note (calc_frequency tok p) \<Longrightarrow> resolve tok = Some (freq (calc_frequency tok p))"
  by (cases tok rule: spec_note.cases)
     (simp_all add: resolver_defs resolve_def split: option.splits if_splits)

lemma letter_in_table: "note_frequencies [upper l] = None \<longleftrightarrow> \<not> spec_letter l"
  by (simp add: spec_letter_def note_frequencies_def)

lemma letter_of_table: "note_frequencies [upper l] = Some f \<Longrightarrow> spec_letter l"
  using letter_in_table [of l] by auto

lemma octave_of_digit:
  "spec_octave c =
     (case py_int [c] of
        None \<Rightarrow> None
      | Some v \<Rightarrow> if v < 0 \<or> v > 8 then None else Some (nat v))"
  by (simp add: spec_octave_def py_int_def)

text \<open>The resolver computes the tone frequency of the specification, and fails where
  the specification has no note.\<close>

lemma resolve_refines_spec: "resolve tok = spec_resolve tok"
  by (cases tok rule: spec_note.cases)
     (auto simp add: resolver_defs resolve_def spec_resolve_def spec_frequency_def
        letter_in_table default_player_def init_player_def octave_of_digit spec_accidental_def
        split: option.splits if_splits dest: letter_of_table)

lemma resolve_A4: "resolve ''A4'' = Some 440"
  by (simp add: resolve_refines_spec spec_resolve_def spec_frequency_def spec_letter_def
      spec_octave_def spec_accidental_def upper_def note_frequencies_def)

lemma resolve_C0: "resolve ''C0'' = Some 16.3516"
  by (simp add: resolve_refines_spec spec_resolve_def spec_frequency_def spec_letter_def
      spec_octave_def spec_accidental_def upper_def note_frequencies_def)

lemma resolve_accidentals:
  assumes "spec_letter l" and "spec_octave c = Some n"
  shows "\<exists>f. resolve [l, c] = Some f
           \<and> resolve [l, c, CHR ''#''] = Some (f * 2 powr (1 / 12))
           \<and> resolve [l, c, CHR ''b''] = Some (f / 2 powr (1 / 12))"
proof -
  from assms(1) obtain f where f: "note_frequencies [upper l] = Some f"
    using letter_in_table [of l] by auto
  from assms(2) have c: "spec_accidental c = None"
    by (auto simp add: spec_accidental_def spec_octave_def split: if_splits)
  show ?thesis
    using assms f c
    by (simp add: resolve_refines_spec spec_resolve_def spec_frequency_def spec_accidental_def)
qed

text \<open>
  C1. For every token that is a note of the specification, the resolved frequency is the
  table's entry for the letter times two to the octave, multiplied by the twelfth root
  of two when the accidental is sharp and divided by it when it is flat; A4 resolves to
  440 Hz and C0 to 16.3516 Hz; and for every letter and octave digit the sharp variant's
  frequency is the plain variant's times the twelfth root of two, the flat variant's the
  plain variant's divided by it. Floats are read as reals.
\<close>

theorem resolve_tone_frequency:
  "(spec_note token = Some (l, n, a) \<longrightarrow>
      (\<exists>f. note_frequencies [upper l] = Some f
          \<and> resolve token =
              Some (case a of
                      Natural \<Rightarrow> f * 2 ^ n
                    | Sharp \<Rightarrow> f * 2 ^ n * 2 powr (1 / 12)
                    | Flat \<Rightarrow> f * 2 ^ n / 2 powr (1 / 12))))
   \<and> resolve ''A4'' = Some 440
   \<and> resolve ''C0'' = Some 16.3516
   \<and> (spec_letter l' \<and> spec_octave c = Some n' \<longrightarrow>
        (\<exists>f. resolve [l', c] = Some f
            \<and> resolve [l', c, CHR ''#''] = Some (f * 2 powr (1 / 12))
            \<and> resolve [l', c, CHR ''b''] = Some (f / 2 powr (1 / 12))))"
proof -
  have spec: "\<exists>f. note_frequencies [upper l] = Some f
          \<and> resolve token =
              Some (case a of
                      Natural \<Rightarrow> f * 2 ^ n
                    | Sharp \<Rightarrow> f * 2 ^ n * 2 powr (1 / 12)
                    | Flat \<Rightarrow> f * 2 ^ n / 2 powr (1 / 12))"
    if parsed: "spec_note token = Some (l, n, a)"
  proof -
    have "spec_letter l"
      using parsed
      by (cases token rule: spec_note.cases) (auto split: if_splits option.splits)
    then obtain f where f: "note_frequencies [upper l] = Some f"
      using letter_in_table [of l] by auto
    show ?thesis
      using parsed f by (simp add: resolve_refines_spec spec_resolve_def spec_frequency_def)
  qed
  show ?thesis
    using spec resolve_A4 resolve_C0 resolve_accidentals by blast
qed

theorem resolve_tone_frequency_witness:
  "spec_note ''E4#'' = Some (CHR ''E'', 4, Sharp)
   \<and> note_frequencies [upper (CHR ''E'')] = Some 20.60172
   \<and> resolve ''E4#'' = Some (20.60172 * 2 ^ 4 * 2 powr (1 / 12))
   \<and> spec_letter (CHR ''g'') \<and> spec_octave (CHR ''8'') = Some 8
   \<and> resolve ''g8'' = Some (24.49971 * 2 ^ 8)
   \<and> resolve ''g8#'' = Some (24.49971 * 2 ^ 8 * 2 powr (1 / 12))
   \<and> resolve ''g8b'' = Some (24.49971 * 2 ^ 8 / 2 powr (1 / 12))"
proof -
  have parsed: "spec_note ''E4#'' = Some (CHR ''E'', 4, Sharp)"
    by (simp add: spec_letter_def spec_octave_def spec_accidental_def upper_def)
  have letter: "spec_letter (CHR ''g'')"
    by (simp add: spec_letter_def upper_def)
  have digit: "spec_octave (CHR ''8'') = Some 8"
    by (simp add: spec_octave_def)
  have plain: "resolve ''g8'' = Some (24.49971 * 2 ^ 8)"
    by (simp add: resolve_refines_spec spec_resolve_def spec_frequency_def spec_letter_def
        spec_octave_def spec_accidental_def upper_def note_frequencies_def)
  have table: "note_frequencies [upper (CHR ''E'')] = Some 20.60172"
    by (simp add: note_frequencies_def upper_def)
  note C1 = resolve_tone_frequency
    [of "''E4#''" "CHR ''E''" 4 Sharp "CHR ''g''" "CHR ''8''" 8]
  from C1 parsed obtain f where
    f: "note_frequencies [upper (CHR ''E'')] = Some f"
       "resolve ''E4#'' = Some (f * 2 ^ 4 * 2 powr (1 / 12))"
    by auto
  from f(1) table have "f = 20.60172"
    by simp
  with f(2) have sharp_E: "resolve ''E4#'' = Some (20.60172 * 2 ^ 4 * 2 powr (1 / 12))"
    by simp
  from C1 letter digit obtain g where
    g: "resolve ''g8'' = Some g"
       "resolve ''g8#'' = Some (g * 2 powr (1 / 12))"
       "resolve ''g8b'' = Some (g / 2 powr (1 / 12))"
    by blast
  from g(1) plain have "g = 24.49971 * 2 ^ 8"
    by simp
  with g have variants:
    "resolve ''g8#'' = Some (24.49971 * 2 ^ 8 * 2 powr (1 / 12))"
    "resolve ''g8b'' = Some (24.49971 * 2 ^ 8 / 2 powr (1 / 12))"
    by simp_all
  show ?thesis
    using parsed table sharp_E letter digit plain variants by blast
qed

text \<open>
  C8, as stated: every token whose length is not 1, 2 or 3 is reported as a failure of
  shape, with the token. The token \<^verbatim>\<open>pause\<close> has five characters and is reported as a
  failure of its letter, with its first character.
\<close>

theorem shape_failure_counterexample:
  "length ''pause'' \<notin> {1, 2, 3}
   \<and> resolve_diagnostics ''pause'' = [Stderr (InvalidLetter ''p'')]
   \<and> resolve_diagnostics ''pause'' \<noteq> [Stderr (InvalidShape ''pause'')]"
  by (simp add: resolve_diagnostics_def resolver_defs note_frequencies_def upper_def
      default_player_def init_player_def)

text \<open>
  C8, amended. A token whose length is not 1, 2 or 3, resolved with the flag set (as
  \<^verbatim>\<open>play_note\<close> sets it before it resolves), does not resolve and prints exactly one
  diagnostic. When its first character is a letter of the table the failure is one of
  shape, reported with the whole token; otherwise (the guard of the last branch of
  \<^verbatim>\<open>__calc_frequency\<close>) it is the failure of the letter, reported with the first
  character, and no failure of shape is reported.
\<close>

theorem shape_failure:
  assumes "length tok \<notin> {1, 2, 3}" and "valid_note p"
  shows "\<not> valid_note (calc_frequency tok p)
    \<and> effects (calc_frequency tok p) =
        effects p @
        [Stderr (case tok of
                   [] \<Rightarrow> InvalidLetter []
                 | l # _ \<Rightarrow> if spec_letter l then InvalidShape tok else InvalidLetter [l])]
    \<and> resolve tok = None
    \<and> resolve_diagnostics tok =
        [Stderr (case tok of
                   [] \<Rightarrow> InvalidLetter []
                 | l # _ \<Rightarrow> if spec_letter l then InvalidShape tok else InvalidLetter [l])]"
  using assms
  by (cases tok rule: spec_note.cases)
     (auto simp add: resolver_defs resolve_def resolve_diagnostics_def letter_in_table
        default_player_def init_player_def split: option.splits dest: letter_of_table)

theorem shape_failure_witness:
  "length ''A4#b'' \<notin> {1, 2, 3}
   \<and> valid_note default_player
   \<and> \<not> valid_note (calc_frequency ''A4#b'' default_player)
   \<and> effects (calc_frequency ''A4#b'' default_player) = [Stderr (InvalidShape ''A4#b'')]
   \<and> resolve ''A4#b'' = None
   \<and> resolve_diagnostics ''A4#b'' = [Stderr (InvalidShape ''A4#b'')]"
proof -
  have flag: "valid_note default_player" and silent: "effects default_player = []"
    by (simp_all add: default_player_def init_player_def)
  have size: "length ''A4#b'' \<notin> {1, 2, 3}"
    by simp
  have letter: "spec_letter (CHR ''A'')"
    by (simp add: spec_letter_def upper_def)
  show ?thesis
    using shape_failure [OF size flag] flag silent letter by simp
qed

section \<open>Properties of the synthesizer\<close>

text \<open>The two ramps of a player: 800 values each, rising from 0 and falling from 1.\<close>

lemma fade_in_values: "constants_kept p \<Longrightarrow> fade_in p = map (\<lambda>i. real i / 800) [0..<800]"
  by (simp add: constants_kept_def arange_def)

lemma fade_out_values: "constants_kept p \<Longrightarrow> fade_out p = map (\<lambda>i. 1 - real i / 800) [0..<800]"
  by (simp add: constants_kept_def arange_def)

lemma apply_fade_length:
  assumes "length (fade_in p) = fade p" "length (fade_out p) = fade p"
  shows "length (apply_fade p audio) = length audio"
  using assms by (auto simp add: apply_fade_def Let_def min_def)

lemma apply_fade_nth:
  assumes "length (fade_in p) = fade p" "length (fade_out p) = fade p"
    and "fade p < length audio" and "i < length audio"
  shows "apply_fade p audio ! i =
     audio ! i * (if i < fade p then fade_in p ! i else 1)
       * (if length audio - fade p \<le> i then fade_out p ! (i - (length audio - fade p)) else 1)"
  using assms by (auto simp add: apply_fade_def Let_def nth_append min_def)

lemma apply_fade_short: "length audio \<le> fade p \<Longrightarrow> apply_fade p audio = audio"
  by (simp add: apply_fade_def)

lemma constants_kept_default: "constants_kept default_player"
  by (simp add: constants_kept_def default_player_def init_player_def)

lemma constants_kept_calc: "constants_kept (calc_frequency tok p) = constants_kept p"
  by (cases tok rule: spec_note.cases)
     (simp_all add: resolver_defs constants_kept_def split: option.splits)

lemma default_multipliers_nonempty: "default_multipliers \<noteq> []"
  by (simp add: default_multipliers_def linspace_def)

text \<open>
  When the duration gives at least one sample, the synthesizer returns a buffer of
  exactly \<open>int(duration * rate)\<close> samples.
\<close>

lemma generate_note_waveform_length:
  assumes "length (fade_in p) = fade p" "length (fade_out p) = fade p"
    and "mults \<noteq> []" and "1 \<le> trunc (r * real (rate p))"
  shows "\<exists>w. generate_note_waveform nan16 mults p (Flt r) = Inr w
           \<and> length w = nat (trunc (r * real (rate p)))"
  using assms
  by (simp add: generate_note_waveform_def fmul_nat_def int_of_float_def linspace_def
      mean_axis0_def Let_def real_of_float_def apply_fade_length)

text \<open>
  What the synthesizer returns is the faded scaled wave, cast; with a peak of zero it is
  the cast of a NaN, as often as there are samples.
\<close>

lemma generate_note_waveform_faded:
  assumes "generate_note_waveform nan16 mults p duration = Inr w"
    and "wave_peak mults p duration \<noteq> 0"
  shows "w = map astype_int16 (apply_fade p (scaled_wave mults p duration))"
  using assms
  by (auto simp add: generate_note_waveform_def averaged_wave_def wave_peak_def scaled_wave_def
      Let_def split: sum.splits if_splits)

lemma generate_note_waveform_nan:
  assumes "generate_note_waveform nan16 mults p duration = Inr w"
    and "wave_peak mults p duration = 0"
  shows "w = replicate (length (averaged_wave mults p duration)) nan16"
  using assms
  by (auto simp add: generate_note_waveform_def averaged_wave_def wave_peak_def
      Let_def split: sum.splits if_splits)

text \<open>
  A tone at a quarter of the sample rate with the single multiplier 1: the sine takes
  the values 0, 1, 0, -1 in turn, so the averaged wave has the peak one half.
\<close>

lemma trunc_of_nat: "trunc (real n) = int n"
  by (simp add: trunc_def)

lemma averaged_quarter_length:
  assumes "rate p = 44100"
  shows "length (averaged_wave [1] p (Flt (real n / 44100))) = n"
  using assms
  by (simp add: averaged_wave_def fmul_nat_def int_of_float_def trunc_of_nat linspace_def
      mean_axis0_def Let_def)

lemma averaged_quarter_nth:
  assumes "rate p = 44100" and "freq p = 11025" and "j < n"
  shows "averaged_wave [1] p (Flt (real n / 44100)) ! j = sin (real j * (pi / 2)) / 2"
proof -
  have "2 * pi * 11025 * (real j * (real n / 44100 / real n)) = real j * (pi / 2)"
    using assms(3) by simp
  then show ?thesis
    using assms
    by (simp add: averaged_wave_def fmul_nat_def int_of_float_def trunc_of_nat linspace_def
        mean_axis0_def Let_def real_of_float_def mult.commute)
qed

lemma quarter_peak:
  assumes "rate p = 44100" and "freq p = 11025" and "2 \<le> n"
  shows "wave_peak [1] p (Flt (real n / 44100)) = 1 / 2"
proof -
  let ?a = "averaged_wave [1] p (Flt (real n / 44100))"
  have len: "length ?a = n"
    using assms(1) by (rule averaged_quarter_length)
  have bound: "y \<le> 1 / 2" if "y \<in> set (map abs ?a)" for y
  proof -
    from that obtain j where j: "j < n" "y = \<bar>?a ! j\<bar>"
      using len by (auto simp add: in_set_conv_nth)
    have "\<bar>sin (real j * (pi / 2))\<bar> \<le> 1"
      by (rule abs_sin_le_one)
    then show ?thesis
      using j averaged_quarter_nth [OF assms(1,2) j(1)] by simp
  qed
  have "?a ! 1 = 1 / 2"
    using averaged_quarter_nth [OF assms(1,2), of 1 n] assms(3) by simp
  then have "map abs ?a ! 1 = 1 / 2"
    using len assms(3) by simp
  then have mem: "1 / 2 \<in> set (map abs ?a)"
    using len assms(3) by (metis length_map nth_mem less_eq_Suc_le Suc_1)
  show ?thesis
    unfolding wave_peak_def
    by (rule Max_eqI) (use bound mem in auto)
qed

lemma quarter_returns:
  assumes "constants_kept p" and "1 \<le> n"
  shows "\<exists>w. generate_note_waveform nan16 [1] p (Flt (real n / 44100)) = Inr w \<and> length w = n"
proof -
  have r: "rate p = 44100" and f: "fade p = 800"
    using assms(1) by (simp_all add: constants_kept_def)
  have "length (fade_in p) = 800" "length (fade_out p) = 800"
    by (simp_all add: fade_in_values [OF assms(1)] fade_out_values [OF assms(1)])
  moreover have "1 \<le> trunc (real n / 44100 * real (rate p))"
    using assms(2) by (simp add: r trunc_of_nat)
  ultimately show ?thesis
    using generate_note_waveform_length [of p "[1]" "real n / 44100" nan16] f
    by (simp add: r trunc_of_nat)
qed

lemma quarter_scaled_one:
  assumes "rate p = 44100" and "freq p = 11025" and "volume p = 3 / 10" and "2 \<le> n"
  shows "scaled_wave [1] p (Flt (real n / 44100)) ! 1 = 98301 / 10"
proof -
  let ?d = "Flt (real n / 44100)"
  have len: "length (averaged_wave [1] p ?d) = n"
    by (rule averaged_quarter_length [OF assms(1)])
  have a: "averaged_wave [1] p ?d ! 1 = 1 / 2"
    using averaged_quarter_nth [OF assms(1,2), of 1 n] assms(4) by simp
  have peak: "wave_peak [1] p ?d = 1 / 2"
    by (rule quarter_peak [OF assms(1,2,4)])
  show ?thesis
    using len assms(4) a by (simp add: scaled_wave_def peak assms(3))
qed

text \<open>
  C5. In a player as constructed, the two ramps have 800 values, \<open>i / 800\<close> rising from 0
  and \<open>1 - i / 800\<close> falling from 1, strictly monotonic. On a buffer longer than 800
  samples the fade step keeps the length and multiplies each of the first 800 samples by
  the rising ramp and each of the last 800 samples by the falling ramp (a sample in both
  ranges by both); a buffer shorter than 800 samples is left as it is. The buffer that
  \<^verbatim>\<open>generate_note_waveform\<close> returns is that step applied to the scaled wave, sample by
  sample, and then cast to 16 bits: longer than 800 samples, each sample is the cast of
  the scaled sample times its ramp values; shorter, it is the cast of the scaled sample.
  (With a peak of zero every sample is a NaN before the step and after it.) Floats are
  read as reals.
\<close>

theorem fade_step:
  assumes "constants_kept p"
  shows "length (fade_in p) = 800 \<and> length (fade_out p) = 800
    \<and> (\<forall>i<800. fade_in p ! i = real i / 800 \<and> fade_out p ! i = 1 - real i / 800)
    \<and> (\<forall>i j. i < j \<and> j < 800 \<longrightarrow>
          fade_in p ! i < fade_in p ! j \<and> fade_out p ! j < fade_out p ! i)
    \<and> (800 < length audio \<longrightarrow>
          length (apply_fade p audio) = length audio
          \<and> (\<forall>i<length audio.
                apply_fade p audio ! i =
                  audio ! i * (if i < 800 then fade_in p ! i else 1)
                    * (if length audio - 800 \<le> i
                       then fade_out p ! (i - (length audio - 800)) else 1)))
    \<and> (length audio < 800 \<longrightarrow> apply_fade p audio = audio)
    \<and> (generate_note_waveform nan16 mults p duration = Inr w
          \<and> wave_peak mults p duration \<noteq> 0 \<longrightarrow>
          length w = length (scaled_wave mults p duration)
          \<and> (800 < length w \<longrightarrow>
                (\<forall>i<length w.
                   w ! i =
                     astype_int16
                       (scaled_wave mults p duration ! i
                          * (if i < 800 then fade_in p ! i else 1)
                          * (if length w - 800 \<le> i
                             then fade_out p ! (i - (length w - 800)) else 1))))
          \<and> (length w < 800 \<longrightarrow> w = map astype_int16 (scaled_wave mults p duration)))"
proof -
  have f: "fade p = 800"
    using assms by (simp add: constants_kept_def)
  have rise: "fade_in p = map (\<lambda>i. real i / 800) [0..<800]"
    and fall: "fade_out p = map (\<lambda>i. 1 - real i / 800) [0..<800]"
    using assms by (rule fade_in_values, rule fade_out_values)
  have len: "length (fade_in p) = 800" "length (fade_out p) = 800"
    by (simp_all add: rise fall)
  have ramp: "\<forall>i<800. fade_in p ! i = real i / 800 \<and> fade_out p ! i = 1 - real i / 800"
    by (simp add: rise fall)
  have strict: "\<forall>i j. i < j \<and> j < 800 \<longrightarrow>
      fade_in p ! i < fade_in p ! j \<and> fade_out p ! j < fade_out p ! i"
    by (simp add: rise fall)
  have long: "length (apply_fade p a) = length a
      \<and> (\<forall>i<length a.
            apply_fade p a ! i =
              a ! i * (if i < 800 then fade_in p ! i else 1)
                * (if length a - 800 \<le> i
                   then fade_out p ! (i - (length a - 800)) else 1))"
    if "800 < length a" for a
    using that apply_fade_length [of p a] apply_fade_nth [of p a] len f
    by simp
  have short: "apply_fade p a = a" if "length a < 800" for a
    using that f by (simp add: apply_fade_short)
  have synth: "length w = length (scaled_wave mults p duration)
          \<and> (800 < length w \<longrightarrow>
                (\<forall>i<length w.
                   w ! i =
                     astype_int16
                       (scaled_wave mults p duration ! i
                          * (if i < 800 then fade_in p ! i else 1)
                          * (if length w - 800 \<le> i
                             then fade_out p ! (i - (length w - 800)) else 1))))
          \<and> (length w < 800 \<longrightarrow> w = map astype_int16 (scaled_wave mults p duration))"
    if ret: "generate_note_waveform nan16 mults p duration = Inr w"
      and peak: "wave_peak mults p duration \<noteq> 0"
  proof -
    let ?s = "scaled_wave mults p duration"
    have w: "w = map astype_int16 (apply_fade p ?s)"
      using ret peak by (rule generate_note_waveform_faded)
    have same: "length (apply_fade p ?s) = length ?s"
      using len f by (simp add: apply_fade_length)
    have lw: "length w = length ?s"
      using w same by simp
    have faded: "w ! i = astype_int16
        (?s ! i * (if i < 800 then fade_in p ! i else 1)
           * (if length w - 800 \<le> i then fade_out p ! (i - (length w - 800)) else 1))"
      if "800 < length w" and "i < length w" for i
    proof -
      have "w ! i = astype_int16 (apply_fade p ?s ! i)"
        using w that(2) same lw by simp
      then show ?thesis
        using long [of ?s] that lw by simp
    qed
    have unfaded: "w = map astype_int16 ?s" if "length w < 800"
      using w short [of ?s] that lw by simp
    show ?thesis
      using lw faded unfaded by blast
  qed
  show ?thesis
    using len ramp strict long [of audio] short [of audio] synth by blast
qed

theorem fade_step_witness:
  "constants_kept (default_player\<lparr>freq := 11025\<rparr>)
   \<and> fade_in (default_player\<lparr>freq := 11025\<rparr>) ! 200 = 1 / 4
   \<and> fade_out (default_player\<lparr>freq := 11025\<rparr>) ! 200 = 3 / 4
   \<and> fade_in (default_player\<lparr>freq := 11025\<rparr>) ! 1
       < fade_in (default_player\<lparr>freq := 11025\<rparr>) ! 2
   \<and> fade_out (default_player\<lparr>freq := 11025\<rparr>) ! 2
       < fade_out (default_player\<lparr>freq := 11025\<rparr>) ! 1
   \<and> 800 < length (replicate 1000 (2::real))
   \<and> apply_fade (default_player\<lparr>freq := 11025\<rparr>) (replicate 1000 2) ! 200 = 1 / 2
   \<and> apply_fade (default_player\<lparr>freq := 11025\<rparr>) (replicate 1000 2) ! 900 = 1 / 4
   \<and> length [1, 2, 3 :: real] < 800
   \<and> apply_fade (default_player\<lparr>freq := 11025\<rparr>) [1, 2, 3] = [1, 2, 3]
   \<and> wave_peak [1] (default_player\<lparr>freq := 11025\<rparr>) (Flt (real 1000 / 44100)) = 1 / 2
   \<and> (\<exists>w. generate_note_waveform 0 [1] (default_player\<lparr>freq := 11025\<rparr>)
              (Flt (real 1000 / 44100)) = Inr w
          \<and> length w = 1000
          \<and> scaled_wave [1] (default_player\<lparr>freq := 11025\<rparr>) (Flt (real 1000 / 44100)) ! 1
              = 98301 / 10
          \<and> w ! 1 = 12)
   \<and> wave_peak [1] (default_player\<lparr>freq := 11025\<rparr>) (Flt (real 2 / 44100)) = 1 / 2
   \<and> (\<exists>w. generate_note_waveform 0 [1] (default_player\<lparr>freq := 11025\<rparr>)
              (Flt (real 2 / 44100)) = Inr w
          \<and> length w = 2
          \<and> w ! 1 = 9830)"
proof -
  define p where "p = default_player\<lparr>freq := 11025\<rparr>"
  define dl where "dl = Flt (real 1000 / 44100)"
  define ds where "ds = Flt (real 2 / 44100)"
  have kept: "constants_kept p"
    and r: "rate p = 44100" and fr: "freq p = 11025" and v: "volume p = 3 / 10"
    by (simp_all add: p_def constants_kept_def default_player_def init_player_def)
  have peak_long: "wave_peak [1] p dl = 1 / 2"
    unfolding dl_def by (rule quarter_peak [OF r fr]) simp
  have peak_short: "wave_peak [1] p ds = 1 / 2"
    unfolding ds_def by (rule quarter_peak [OF r fr]) simp
  obtain wl where wl: "generate_note_waveform 0 [1] p dl = Inr wl" "length wl = 1000"
    unfolding dl_def using quarter_returns [OF kept, of 1000 0] by auto
  obtain ws where ws: "generate_note_waveform 0 [1] p ds = Inr ws" "length ws = 2"
    unfolding ds_def using quarter_returns [OF kept, of 2 0] by auto
  have s_long: "scaled_wave [1] p dl ! 1 = 98301 / 10"
    unfolding dl_def by (rule quarter_scaled_one [OF r fr v]) simp
  have s_short: "scaled_wave [1] p ds ! 1 = 98301 / 10"
    unfolding ds_def by (rule quarter_scaled_one [OF r fr v]) simp
  note long = fade_step [OF kept, of "replicate 1000 2" 0 "[1]" dl wl]
  note short = fade_step [OF kept, of "[1, 2, 3]" 0 "[1]" ds ws]
  from long have ramp:
    "\<forall>i<800. fade_in p ! i = real i / 800 \<and> fade_out p ! i = 1 - real i / 800"
    by blast
  from ramp [rule_format, of 200] ramp [rule_format, of 0] ramp [rule_format, of 700]
    ramp [rule_format, of 1]
  have v200: "fade_in p ! 200 = 1 / 4" "fade_out p ! 200 = 3 / 4"
    and v0: "fade_out p ! 0 = 1"
    and v700: "fade_out p ! 700 = 1 / 8"
    and v1: "fade_in p ! 1 = 1 / 800"
    by simp_all
  from long have mono: "\<forall>i j. i < j \<and> j < 800 \<longrightarrow>
      fade_in p ! i < fade_in p ! j \<and> fade_out p ! j < fade_out p ! i"
    by blast
  from mono [rule_format, of 1 2]
  have strict: "fade_in p ! 1 < fade_in p ! 2" "fade_out p ! 2 < fade_out p ! 1"
    by simp_all
  from long have each: "\<forall>i<1000. apply_fade p (replicate 1000 2) ! i =
      replicate 1000 2 ! i * (if i < 800 then fade_in p ! i else 1)
        * (if 200 \<le> i then fade_out p ! (i - 200) else 1)"
    by simp
  from each [rule_format, of 200] each [rule_format, of 900]
  have faded: "apply_fade p (replicate 1000 2) ! 200 = 1 / 2"
    "apply_fade p (replicate 1000 2) ! 900 = 1 / 4"
    using v200 v0 v700 by simp_all
  from short have unfaded: "apply_fade p [1, 2, 3] = [1, 2, 3]"
    by simp
  from long wl peak_long have synth: "\<forall>i<1000. wl ! i =
      astype_int16 (scaled_wave [1] p dl ! i
        * (if i < 800 then fade_in p ! i else 1)
        * (if 200 \<le> i then fade_out p ! (i - 200) else 1))"
    by simp
  have "wl ! 1 = astype_int16 (scaled_wave [1] p dl ! 1 * fade_in p ! 1 * 1)"
    using synth [rule_format, of 1] by simp
  then have "wl ! 1 = astype_int16 (98301 / 10 * (1 / 800) * 1)"
    by (simp only: s_long v1)
  then have first: "wl ! 1 = 12"
    by (simp add: astype_int16_def trunc_def)
  from short ws peak_short have "ws = map astype_int16 (scaled_wave [1] p ds)"
      and "length (scaled_wave [1] p ds) = 2"
    by simp_all
  then have "ws ! 1 = astype_int16 (scaled_wave [1] p ds ! 1)"
    by simp
  then have "ws ! 1 = astype_int16 (98301 / 10)"
    by (simp only: s_short)
  then have second: "ws ! 1 = 9830"
    by (simp add: astype_int16_def trunc_def)
  have long_part: "\<exists>w. generate_note_waveform 0 [1] p dl = Inr w
          \<and> length w = 1000 \<and> scaled_wave [1] p dl ! 1 = 98301 / 10 \<and> w ! 1 = 12"
    using wl s_long first by blast
  have short_part: "\<exists>w. generate_note_waveform 0 [1] p ds = Inr w
          \<and> length w = 2 \<and> w ! 1 = 9830"
    using ws second by blast
  have sizes: "800 < length (replicate 1000 (2::real))" "length [1, 2, 3 :: real] < 800"
    by simp_all
  show ?thesis
    using kept v200 strict sizes faded unfaded peak_long long_part peak_short short_part
    unfolding p_def dl_def ds_def by blast
qed

text \<open>
  C2, at the duration zero. The time axis and the averaged wave are empty arrays, and
  \<^verbatim>\<open>np.max\<close> of the empty array raises \<^verbatim>\<open>ValueError\<close>: no buffer is returned, for any
  player and with the default multipliers.
\<close>

theorem zero_duration_raises:
  "generate_note_waveform nan16 default_multipliers p (Flt 0) = Inl ValueError"
  by (simp add: generate_note_waveform_def fmul_nat_def int_of_float_def trunc_def linspace_def
      mean_axis0_def default_multipliers_nonempty Let_def)

section \<open>Properties of the sequencer\<close>

lemma calc_frequency_effects:
  "valid_note (calc_frequency tok p) \<Longrightarrow> effects (calc_frequency tok p) = effects p"
  by (cases tok rule: spec_note.cases)
     (simp_all add: resolver_defs split: option.splits if_splits)

text \<open>
  The sequencer never sets the flag. Once it is not set, no later line adds a buffer.
\<close>

lemma tune_loop_invalid:
  "\<not> valid_note p \<Longrightarrow> fst (tune_loop pf nan16 mults p ws lines) = Inr ws"
  by (induction lines arbitrary: p ws)
     (simp_all add: Let_def calc_frequency_valid split: prod.splits)

lemma tune_loop_unresolved:
  "\<forall>l\<in>set lines. strip l = [] \<or> resolve (fst (split_line (strip l))) = None \<Longrightarrow>
   fst (tune_loop pf nan16 mults p ws lines) = Inr ws"
  by (induction lines arbitrary: p ws)
     (auto simp add: Let_def calc_frequency_valid split: prod.splits)

lemma tune_loop_note:
  assumes "strip l \<noteq> []" and "split_line (strip l) = (tok, dv)"
    and "valid_note (calc_frequency tok p)"
    and "generate_note_waveform nan16 mults (calc_frequency tok p) (to_duration pf dv) = Inr w"
  shows "tune_loop pf nan16 mults p ws (l # lines) =
         tune_loop pf nan16 mults (calc_frequency tok p) (ws @ [w]) lines"
  using assms by (simp add: Let_def)

lemma tune_loop_skip:
  assumes "strip l \<noteq> []" and "split_line (strip l) = (tok, dv)"
    and "\<not> valid_note (calc_frequency tok p)"
  shows "tune_loop pf nan16 mults p ws (l # lines) =
         tune_loop pf nan16 mults (calc_frequency tok p) ws lines"
  using assms by (simp add: Let_def)

text \<open>
  C10. When every line is blank or holds a token that does not resolve, the loop ends
  with an empty list of buffers, \<^verbatim>\<open>np.concatenate\<close> raises on it, and so the sequencer
  raises \<^verbatim>\<open>ValueError\<close> instead of returning an empty buffer.
\<close>

theorem empty_tune_raises:
  assumes "\<forall>l\<in>set lines. strip l = [] \<or> resolve (fst (split_line (strip l))) = None"
  shows "fst (tune_loop pf nan16 mults p [] lines) = Inr []
    \<and> np_concatenate ([] :: 16 word list list) = Inl ValueError
    \<and> fst (generate_tune_waveform pf nan16 mults p lines) = Inl ValueError"
proof -
  have loop: "fst (tune_loop pf nan16 mults p [] lines) = Inr []"
    using assms by (rule tune_loop_unresolved)
  then show ?thesis
    by (cases "tune_loop pf nan16 mults p [] lines")
       (simp add: generate_tune_waveform_def np_concatenate_def)
qed

theorem empty_tune_raises_witness:
  "strip [] = [] \<and> strip ''  '' = []
   \<and> resolve (fst (split_line (strip ''H4:1''))) = None
   \<and> resolve (fst (split_line (strip ''pause''))) = None
   \<and> fst (generate_tune_waveform (\<lambda>s. None) 0 default_multipliers default_player
            [[], ''  '', ''H4:1'', ''pause'']) = Inl ValueError"
proof -
  have blank: "strip [] = []" "strip ''  '' = []"
    by (simp_all add: strip_def isspace_def)
  have unresolved: "resolve (fst (split_line (strip ''H4:1''))) = None"
    "resolve (fst (split_line (strip ''pause''))) = None"
    by (simp_all add: strip_def isspace_def split_line_def resolve_refines_spec spec_resolve_def
        spec_letter_def upper_def)
  have each: "\<forall>l\<in>set [[], ''  '', ''H4:1'', ''pause''].
      strip l = [] \<or> resolve (fst (split_line (strip l))) = None"
    using blank unresolved by simp
  show ?thesis
    using blank unresolved
      empty_tune_raises [OF each, of "\<lambda>s. None" 0 default_multipliers default_player]
    by blast
qed

text \<open>The lines and tokens of the tunes below, and half a second of one note.\<close>

lemma strip_token:
  "strip ''E4'' = ''E4''" "strip ''D4'' = ''D4''" "strip ''X'' = ''X''"
  "strip ''X4'' = ''X4''" "strip ''pause'' = ''pause''"
  by (simp_all add: strip_def isspace_def)

lemma split_token:
  "split_line ''E4'' = (''E4'', Float (Flt (1 / 2)))"
  "split_line ''D4'' = (''D4'', Float (Flt (1 / 2)))"
  "split_line ''X'' = (''X'', Float (Flt (1 / 2)))"
  "split_line ''X4'' = (''X4'', Float (Flt (1 / 2)))"
  "split_line ''pause'' = (''pause'', Float (Flt (1 / 2)))"
  by (simp_all add: split_line_def)

lemma resolve_E4: "resolve ''E4'' = Some (20.60172 * 2 ^ 4)"
  by (simp add: resolve_refines_spec spec_resolve_def spec_frequency_def spec_letter_def
      spec_octave_def spec_accidental_def upper_def note_frequencies_def)

lemma resolve_D4: "resolve ''D4'' = Some (18.35405 * 2 ^ 4)"
  by (simp add: resolve_refines_spec spec_resolve_def spec_frequency_def spec_letter_def
      spec_octave_def spec_accidental_def upper_def note_frequencies_def)

lemma resolve_bad: "resolve ''X'' = None" "resolve ''X4'' = None" "resolve ''pause'' = None"
  by (simp_all add: resolve_refines_spec spec_resolve_def spec_letter_def upper_def)

lemma half_second:
  assumes "constants_kept p" and "resolve tok \<noteq> None"
  shows "\<exists>w. note_waveform nan16 default_multipliers p tok (Flt (1 / 2)) = Inr w
           \<and> length w = 22050"
proof -
  let ?q = "calc_frequency tok (p\<lparr>valid_note := True\<rparr>)"
  have "constants_kept (p\<lparr>valid_note := True\<rparr>)"
    using assms(1) by (simp add: constants_kept_def)
  then have kept: "constants_kept ?q"
    by (simp only: constants_kept_calc)
  have "rate ?q = 44100" and "fade ?q = 800"
    using kept by (simp_all add: constants_kept_def)
  moreover have "length (fade_in ?q) = 800" "length (fade_out ?q) = 800"
    by (simp_all add: fade_in_values [OF kept] fade_out_values [OF kept])
  moreover have "trunc (0.5 * real 44100) = 22050"
    by (simp add: trunc_def)
  ultimately show ?thesis
    using generate_note_waveform_length [of ?q default_multipliers "0.5" nan16]
      default_multipliers_nonempty
    by (simp add: note_waveform_def)
qed

lemma valid_default: "valid_note default_player" "effects default_player = []"
  "default_player\<lparr>valid_note := True\<rparr> = default_player"
  by (simp_all add: default_player_def init_player_def)

lemma np_concatenate_single: "np_concatenate [w] = Inr w"
  by (simp add: np_concatenate_def)

lemma to_duration_default: "to_duration pf (Float (Flt (1 / 2))) = Flt (1 / 2)"
  by (simp add: to_duration_def)

text \<open>
  A line whose token resolves, followed by a line whose token does not: the tune is the
  first note's buffer, whatever lines follow.
\<close>

lemma tune_after_bad_line:
  assumes first: "strip l1 \<noteq> []" "split_line (strip l1) = (tok1, Float (Flt (1 / 2)))"
    and second: "strip l2 \<noteq> []" "split_line (strip l2) = (tok2, dv)"
    and p: "valid_note p"
    and w: "note_waveform nan16 mults p tok1 (Flt (1 / 2)) = Inr w"
    and ok: "resolve tok1 \<noteq> None" and bad: "resolve tok2 = None"
  shows "generate_tune_waveform pf nan16 mults p (l1 # l2 # rest) =
     (Inr w, snd (tune_loop pf nan16 mults (calc_frequency tok2 (calc_frequency tok1 p)) [w] rest))"
proof -
  let ?p1 = "calc_frequency tok1 p"
  let ?p2 = "calc_frequency tok2 ?p1"
  have same: "p\<lparr>valid_note := True\<rparr> = p"
    using p by simp
  have v1: "valid_note ?p1"
    using p ok by (simp add: calc_frequency_valid)
  have v2: "\<not> valid_note ?p2"
    using bad by (simp add: calc_frequency_valid)
  have w1: "generate_note_waveform nan16 mults ?p1 (to_duration pf (Float (Flt (1 / 2)))) = Inr w"
    using w by (simp add: note_waveform_def same to_duration_default)
  have "tune_loop pf nan16 mults p [] (l1 # l2 # rest) =
        tune_loop pf nan16 mults ?p1 ([] @ [w]) (l2 # rest)"
    using first v1 w1 by (rule tune_loop_note)
  also have "\<dots> = tune_loop pf nan16 mults ?p2 [w] rest"
    using tune_loop_skip [OF second v2] by simp
  finally have loop: "tune_loop pf nan16 mults p [] (l1 # l2 # rest) =
      tune_loop pf nan16 mults ?p2 [w] rest" .
  have "fst (tune_loop pf nan16 mults ?p2 [w] rest) = Inr [w]"
    using v2 by (rule tune_loop_invalid)
  then show ?thesis
    unfolding generate_tune_waveform_def loop
    by (cases "tune_loop pf nan16 mults ?p2 [w] rest") (simp add: np_concatenate_single)
qed

text \<open>
  C3, on the tune \<^verbatim>\<open>["X4", "D4"]\<close>. The letter of \<^verbatim>\<open>X4\<close> is reported and the flag is
  cleared; the sequencer does not set it again (\<^verbatim>\<open>play_note\<close> does, at its first line),
  so \<^verbatim>\<open>D4\<close>, which resolves on its own, is skipped too, the list of buffers stays
  empty and \<^verbatim>\<open>ValueError\<close> leaves the sequencer.
\<close>

theorem invalid_note_silences_tune:
  "fst (generate_tune_waveform pf nan16 mults default_player [''X4'', ''D4'']) = Inl ValueError
   \<and> effects (snd (generate_tune_waveform pf nan16 mults default_player [''X4'', ''D4'']))
       = [Stderr (InvalidLetter ''X'')]
   \<and> resolve ''D4'' = Some (18.35405 * 2 ^ 4)"
proof -
  let ?p1 = "calc_frequency ''X4'' default_player"
  let ?p2 = "calc_frequency ''D4'' ?p1"
  have v1: "\<not> valid_note ?p1"
    by (simp add: calc_frequency_valid resolve_bad)
  have v2: "\<not> valid_note ?p2"
    using v1 calc_frequency_valid [of "''D4''" ?p1] by blast
  have loop: "tune_loop pf nan16 mults default_player [] [''X4'', ''D4''] = (Inr [], ?p2)"
    using v1 v2 by (simp add: strip_token split_token Let_def)
  have e1: "effects ?p1 = [Stderr (InvalidLetter ''X'')]"
    by (simp add: resolver_defs note_frequencies_def upper_def valid_default)
  have e2: "effects ?p2 = effects ?p1"
    using v1 by (simp add: resolver_defs note_frequencies_def upper_def)
  show ?thesis
    unfolding generate_tune_waveform_def loop
    by (simp add: np_concatenate_def e1 e2 resolve_D4)
qed

text \<open>
  A token that resolves changes the frequency and nothing else, so its buffer in a tune
  of resolving notes is its buffer alone: the two lines \<^verbatim>\<open>E4:0.5\<close> and \<^verbatim>\<open>D4:0.5\<close> give
  the two buffers one after the other.
\<close>

lemma calc_frequency_resolved:
  "valid_note p \<Longrightarrow> resolve tok = Some f \<Longrightarrow> calc_frequency tok p = p\<lparr>freq := f\<rparr>"
  by (cases tok rule: spec_note.cases)
     (auto simp add: resolver_defs resolve_def split: option.splits if_splits)

lemma tune_of_two_notes:
  assumes "parse_float ''0.5'' = Some (Flt (1 / 2))"
  shows "\<exists>e d. note_waveform nan16 default_multipliers default_player ''E4'' (Flt (1 / 2)) = Inr e
     \<and> note_waveform nan16 default_multipliers default_player ''D4'' (Flt (1 / 2)) = Inr d
     \<and> fst (generate_tune_waveform parse_float nan16 default_multipliers default_player
              [''E4:0.5'', ''D4:0.5'']) = Inr (e @ d)
     \<and> length (e @ d) = length e + length d"
proof -
  let ?p1 = "calc_frequency ''E4'' default_player"
  let ?p2 = "calc_frequency ''D4'' ?p1"
  obtain e where e: "note_waveform nan16 default_multipliers default_player ''E4'' (Flt (1 / 2)) = Inr e"
    using half_second [OF constants_kept_default, of "''E4''" nan16] resolve_E4 by auto
  obtain d where d: "note_waveform nan16 default_multipliers default_player ''D4'' (Flt (1 / 2)) = Inr d"
    using half_second [OF constants_kept_default, of "''D4''" nan16] resolve_D4 by auto
  have lines: "strip ''E4:0.5'' \<noteq> []" "split_line (strip ''E4:0.5'') = (''E4'', Str ''0.5'')"
    "strip ''D4:0.5'' \<noteq> []" "split_line (strip ''D4:0.5'') = (''D4'', Str ''0.5'')"
    by (simp_all add: strip_def isspace_def split_line_def)
  have dur: "to_duration parse_float (Str ''0.5'') = Flt (1 / 2)"
    using assms by (simp add: to_duration_def)
  have v1: "valid_note ?p1"
    by (simp add: calc_frequency_valid valid_default resolve_E4)
  then have v2: "valid_note ?p2"
    by (simp add: calc_frequency_valid resolve_D4)
  have p1: "?p1 = default_player\<lparr>freq := 20.60172 * 2 ^ 4\<rparr>"
    using valid_default(1) resolve_E4 by (rule calc_frequency_resolved)
  have "?p2 = ?p1\<lparr>freq := 18.35405 * 2 ^ 4\<rparr>"
    using v1 resolve_D4 by (rule calc_frequency_resolved)
  also have "\<dots> = default_player\<lparr>freq := 18.35405 * 2 ^ 4\<rparr>"
    by (simp add: p1)
  also have "\<dots> = calc_frequency ''D4'' default_player"
    using valid_default(1) resolve_D4 by (rule calc_frequency_resolved [symmetric])
  finally have p2: "?p2 = calc_frequency ''D4'' default_player" .
  have w1: "generate_note_waveform nan16 default_multipliers ?p1
      (to_duration parse_float (Str ''0.5'')) = Inr e"
    using e by (simp add: note_waveform_def valid_default dur)
  have w2: "generate_note_waveform nan16 default_multipliers ?p2
      (to_duration parse_float (Str ''0.5'')) = Inr d"
    using d by (simp only: note_waveform_def valid_default dur p2)
  have "tune_loop parse_float nan16 default_multipliers default_player [] [''E4:0.5'', ''D4:0.5'']
      = tune_loop parse_float nan16 default_multipliers ?p1 ([] @ [e]) [''D4:0.5'']"
    using lines(1,2) v1 w1 by (rule tune_loop_note)
  also have "\<dots> = tune_loop parse_float nan16 default_multipliers ?p2 (([] @ [e]) @ [d]) []"
    using lines(3,4) v2 w2 by (rule tune_loop_note)
  finally have "tune_loop parse_float nan16 default_multipliers default_player []
      [''E4:0.5'', ''D4:0.5''] = (Inr [e, d], ?p2)"
    by simp
  then have "fst (generate_tune_waveform parse_float nan16 default_multipliers default_player
      [''E4:0.5'', ''D4:0.5'']) = Inr (e @ d)"
    unfolding generate_tune_waveform_def by (simp add: np_concatenate_def)
  then show ?thesis
    using e d by simp
qed

text \<open>
  C4, on the tune \<^verbatim>\<open>["E4", "X", "D4"]\<close>, one invalid token amid two valid ones. Each of
  the two notes alone gives 22050 samples, and the tune is the buffer of \<^verbatim>\<open>E4\<close> only,
  not the two buffers concatenated.
\<close>

theorem invalid_note_drops_later_note:
  "\<exists>e d. note_waveform nan16 default_multipliers default_player ''E4'' (Flt (1 / 2)) = Inr e
     \<and> note_waveform nan16 default_multipliers default_player ''D4'' (Flt (1 / 2)) = Inr d
     \<and> length e = 22050 \<and> length d = 22050
     \<and> fst (generate_tune_waveform pf nan16 default_multipliers default_player
              [''E4'', ''X'', ''D4'']) = Inr e
     \<and> e \<noteq> e @ d"
proof -
  obtain e where e: "note_waveform nan16 default_multipliers default_player ''E4'' (Flt (1 / 2)) = Inr e"
      "length e = 22050"
    using half_second [OF constants_kept_default, of "''E4''" nan16] resolve_E4 by auto
  obtain d where d: "note_waveform nan16 default_multipliers default_player ''D4'' (Flt (1 / 2)) = Inr d"
      "length d = 22050"
    using half_second [OF constants_kept_default, of "''D4''" nan16] resolve_D4 by auto
  have "generate_tune_waveform pf nan16 default_multipliers default_player [''E4'', ''X'', ''D4''] =
     (Inr e, snd (tune_loop pf nan16 default_multipliers
        (calc_frequency ''X'' (calc_frequency ''E4'' default_player)) [e] [''D4'']))"
    by (rule tune_after_bad_line [where dv = "Float (Flt (1 / 2))"])
       (simp_all add: strip_token split_token valid_default e resolve_E4 resolve_bad)
  then have "fst (generate_tune_waveform pf nan16 default_multipliers default_player
      [''E4'', ''X'', ''D4'']) = Inr e"
    by simp
  moreover have "e \<noteq> e @ d"
    using d(2) by auto
  ultimately show ?thesis
    using e d by blast
qed

text \<open>
  C7, on the tune \<^verbatim>\<open>["E4", "pause", "D4"]\<close>. The sequencer has no branch for the
  token \<^verbatim>\<open>pause\<close>: it resolves it as a note, reports its letter as invalid, and with
  the flag cleared drops \<^verbatim>\<open>D4\<close> as well. Nothing sleeps.
\<close>

theorem pause_line_is_invalid_note:
  "\<exists>e. note_waveform nan16 default_multipliers default_player ''E4'' (Flt (1 / 2)) = Inr e
     \<and> fst (generate_tune_waveform pf nan16 default_multipliers default_player
              [''E4'', ''pause'', ''D4'']) = Inr e
     \<and> effects (snd (generate_tune_waveform pf nan16 default_multipliers default_player
              [''E4'', ''pause'', ''D4''])) = [Stderr (InvalidLetter ''p'')]"
proof -
  let ?p1 = "calc_frequency ''E4'' default_player"
  let ?p2 = "calc_frequency ''pause'' ?p1"
  let ?p3 = "calc_frequency ''D4'' ?p2"
  obtain e where e: "note_waveform nan16 default_multipliers default_player ''E4'' (Flt (1 / 2)) = Inr e"
    using half_second [OF constants_kept_default, of "''E4''" nan16] resolve_E4 by auto
  have tune: "generate_tune_waveform pf nan16 default_multipliers default_player
      [''E4'', ''pause'', ''D4''] =
     (Inr e, snd (tune_loop pf nan16 default_multipliers ?p2 [e] [''D4'']))"
    by (rule tune_after_bad_line [where dv = "Float (Flt (1 / 2))"])
       (simp_all add: strip_token split_token valid_default e resolve_E4 resolve_bad)
  have v1: "valid_note ?p1"
    by (simp add: calc_frequency_valid valid_default resolve_E4)
  have v2: "\<not> valid_note ?p2"
    by (simp add: calc_frequency_valid resolve_bad)
  have v3: "\<not> valid_note ?p3"
    using v2 calc_frequency_valid [of "''D4''" ?p2] by blast
  have e1: "effects ?p1 = []"
    using v1 by (simp add: calc_frequency_effects valid_default)
  have e2: "effects ?p2 = effects ?p1 @ [Stderr (InvalidLetter ''p'')]"
    using v1 by (simp add: resolver_defs note_frequencies_def upper_def)
  have e3: "effects ?p3 = effects ?p2"
    using v2 by (simp add: resolver_defs note_frequencies_def upper_def)
  have "tune_loop pf nan16 default_multipliers ?p2 [e] [''D4''] = (Inr [e], ?p3)"
    using v3 by (simp add: strip_token split_token Let_def)
  then show ?thesis
    using e by (simp add: tune e1 e2 e3)
qed

text \<open>
  The branch of \<^verbatim>\<open>play_note\<close> for the same token, with no sound playing and output not
  muted: the pause is reported, the player sleeps, and no buffer is played.
\<close>

lemma play_note_pause:
  assumes "play_obj p = None" and "\<not> mute_output p" and "0 \<le> r" and "r * 10 ^ 9 < 2 ^ 63"
  shows "play_note polls nan16 ''pause'' (Flt r) p =
     Some (None, p\<lparr>valid_note := True, destructor_sleep := Flt 0,
                    effects := effects p @ [Stdout (Pausing (Flt r)), Sleep (Flt r)]\<rparr>)"
proof -
  have "\<not> (2 ^ 63 \<le> r * 10 ^ 9 \<or> r * 10 ^ 9 < - (2 ^ 63))"
    using assms(3,4) by (simp add: not_le)
  then show ?thesis
    using assms(1,2,3)
    by (simp add: play_note_def wait_for_prev_sound_def print_played_note_def time_sleep_def
        emit_def Let_def)
qed

section \<open>Reading a line\<close>

text \<open>\<^verbatim>\<open>split\<close> gives one part more than there are separators.\<close>

lemma split_nonempty: "split sep s \<noteq> []"
  by (induction s) (auto split: list.splits)

lemma length_split: "length (split sep s) = Suc (count_list s sep)"
  by (induction s) (auto split: list.splits simp: split_nonempty)

lemma split_no_sep: "sep \<notin> set s \<Longrightarrow> split sep s = [s]"
  by (induction s) auto

lemma split_first:
  "sep \<in> set s \<Longrightarrow>
   split sep s = takeWhile (\<lambda>c. c \<noteq> sep) s # split sep (tl (dropWhile (\<lambda>c. c \<noteq> sep) s))"
  by (induction s) (auto split: list.splits simp: split_nonempty)

lemma count_tail:
  "sep \<in> set s \<Longrightarrow> count_list s sep = Suc (count_list (tl (dropWhile (\<lambda>c. c \<noteq> sep) s)) sep)"
  by (induction s) auto

lemma split_line_one_colon:
  assumes "count_list line (CHR '':'') = 1"
  shows "split_line line =
     (takeWhile (\<lambda>c. c \<noteq> CHR '':'') line,
      Str (tl (dropWhile (\<lambda>c. c \<noteq> CHR '':'') line)))"
proof -
  let ?rest = "tl (dropWhile (\<lambda>c. c \<noteq> CHR '':'') line)"
  have mem: "CHR '':'' \<in> set line"
    using assms by (metis count_list_0_iff zero_neq_one)
  have "count_list ?rest (CHR '':'') = 0"
    using count_tail [OF mem] assms by simp
  then have "CHR '':'' \<notin> set ?rest"
    by (simp add: count_list_0_iff)
  then have "split (CHR '':'') ?rest = [?rest]"
    by (rule split_no_sep)
  then show ?thesis
    using split_first [OF mem] by (simp add: split_line_def)
qed

lemma split_line_other:
  assumes "count_list line (CHR '':'') \<noteq> 1"
  shows "split_line line = (line, Float (Flt (1 / 2)))"
proof -
  have "length (split (CHR '':'') line) \<noteq> 2"
    using assms by (simp add: length_split)
  then show ?thesis
    by (auto simp add: split_line_def split: list.splits)
qed

text \<open>
  C6, as stated: a line is split on its first colon. On the line \<^verbatim>\<open>A:1:2\<close> the
  specification's token is \<^verbatim>\<open>A\<close>, which resolves; the code's unpacking of three parts
  fails, and its token is the whole line, which does not.
\<close>

theorem split_on_first_colon_counterexample:
  "fst (spec_split_line ''A:1:2'') = ''A''
   \<and> fst (split_line ''A:1:2'') = ''A:1:2''
   \<and> fst (split_line ''A:1:2'') \<noteq> fst (spec_split_line ''A:1:2'')
   \<and> resolve (fst (spec_split_line ''A:1:2'')) = Some (27.5 * 2 ^ 4)
   \<and> resolve (fst (split_line ''A:1:2'')) = None"
  by (simp add: spec_split_line_def split_line_def resolve_refines_spec spec_resolve_def
      spec_frequency_def spec_letter_def upper_def note_frequencies_def)

text \<open>
  C6, amended. A blank line is skipped. A line with exactly one colon is split there into
  the token and the duration text; a line with no colon or with more than one is the
  token as a whole, with the duration 0.5. A duration text that does not parse as a float
  gives the duration 0.5, and one that parses gives its value.
\<close>

theorem line_reading:
  "(strip l = [] \<longrightarrow>
      tune_loop parse_float nan16 mults p ws (l # lines) =
      tune_loop parse_float nan16 mults p ws lines)
   \<and> (count_list line (CHR '':'') = 1 \<longrightarrow>
        split_line line =
          (takeWhile (\<lambda>c. c \<noteq> CHR '':'') line,
           Str (tl (dropWhile (\<lambda>c. c \<noteq> CHR '':'') line))))
   \<and> (count_list line (CHR '':'') \<noteq> 1 \<longrightarrow> split_line line = (line, Float (Flt 0.5)))
   \<and> to_duration parse_float (Float (Flt 0.5)) = Flt 0.5
   \<and> (parse_float text = None \<longrightarrow> to_duration parse_float (Str text) = Flt 0.5)
   \<and> (parse_float text = Some x \<longrightarrow> to_duration parse_float (Str text) = x)"
proof -
  have blank: "strip l = [] \<longrightarrow>
      tune_loop parse_float nan16 mults p ws (l # lines) =
      tune_loop parse_float nan16 mults p ws lines"
    by simp
  have one: "count_list line (CHR '':'') = 1 \<longrightarrow>
        split_line line =
          (takeWhile (\<lambda>c. c \<noteq> CHR '':'') line,
           Str (tl (dropWhile (\<lambda>c. c \<noteq> CHR '':'') line)))"
    using split_line_one_colon [of line] by blast
  have other: "count_list line (CHR '':'') \<noteq> 1 \<longrightarrow> split_line line = (line, Float (Flt 0.5))"
    using split_line_other [of line] by simp
  have duration: "to_duration parse_float (Float (Flt 0.5)) = Flt 0.5"
    "parse_float text = None \<longrightarrow> to_duration parse_float (Str text) = Flt 0.5"
    "parse_float text = Some x \<longrightarrow> to_duration parse_float (Str text) = x"
    by (simp_all add: to_duration_def)
  show ?thesis
    using blank one other duration by blast
qed

theorem line_reading_witness:
  "strip ''  '' = []
   \<and> tune_loop (\<lambda>s. if s = ''0.25'' then Some (Flt 0.25) else None) 0 default_multipliers
        default_player [] [''  ''] = (Inr [], default_player)
   \<and> count_list ''A4:0.25'' (CHR '':'') = 1
   \<and> split_line ''A4:0.25'' = (''A4'', Str ''0.25'')
   \<and> count_list ''A:1:2'' (CHR '':'') \<noteq> 1
   \<and> split_line ''A:1:2'' = (''A:1:2'', Float (Flt 0.5))
   \<and> to_duration (\<lambda>s. if s = ''0.25'' then Some (Flt 0.25) else None) (Str ''0.25'') = Flt 0.25
   \<and> to_duration (\<lambda>s. if s = ''0.25'' then Some (Flt 0.25) else None) (Str ''fast'') = Flt 0.5"
proof -
  let ?pf = "\<lambda>s. if s = ''0.25'' then Some (Flt 0.25) else None"
  have blank: "strip ''  '' = []"
    by (simp add: strip_def isspace_def)
  have one: "count_list ''A4:0.25'' (CHR '':'') = 1"
    and more: "count_list ''A:1:2'' (CHR '':'') \<noteq> 1"
    by simp_all
  have parsed: "?pf ''0.25'' = Some (Flt 0.25)" and failed: "?pf ''fast'' = None"
    by simp_all
  note first = line_reading
    [of "''  ''" ?pf 0 default_multipliers default_player "[]" "[]" "''A4:0.25''" "''0.25''"
      "Flt 0.25"]
  note second = line_reading
    [of "''  ''" ?pf 0 default_multipliers default_player "[]" "[]" "''A:1:2''" "''fast''"
      "Flt 0.25"]
  from first blank
  have skipped: "tune_loop ?pf 0 default_multipliers default_player [] [''  ''] =
      tune_loop ?pf 0 default_multipliers default_player [] []"
    by blast
  from first one have cut: "split_line ''A4:0.25'' = (''A4'', Str ''0.25'')"
    by simp
  from second more have whole: "split_line ''A:1:2'' = (''A:1:2'', Float (Flt 0.5))"
    by blast
  from first parsed have given: "to_duration ?pf (Str ''0.25'') = Flt 0.25"
    by blast
  from second failed have fallback: "to_duration ?pf (Str ''fast'') = Flt 0.5"
    by blast
  show ?thesis
    using blank skipped one cut more whole given fallback by simp
qed

section \<open>Construction and the argument of a tune\<close>

text \<open>
  C9. A volume below 0 or above 1 makes the constructor raise \<^verbatim>\<open>ValueError\<close>; the
  volumes 0 and 1 give a player. \<^verbatim>\<open>play_tune\<close> on an argument that is neither a string
  nor a list raises \<^verbatim>\<open>TypeError\<close> at once: it returns with that exception and the player
  as it was, nothing printed and nothing played.
\<close>

theorem fatal_errors:
  "(vol < 0 \<or> 1 < vol \<longrightarrow> Player vol mute = Inl ValueError)
   \<and> Player 0 mute = Inr (init_player 0 mute)
   \<and> Player 1 mute = Inr (init_player 1 mute)
   \<and> play_tune polls parse_float nan16 files TuneOther mults p = Some (Some TypeError, p)"
  by (simp add: Player_def play_tune_def)

theorem fatal_errors_witness:
  "((1.5 :: real) < 0 \<or> 1 < (1.5 :: real))
   \<and> Player 1.5 False = Inl ValueError
   \<and> ((- 0.1 :: real) < 0 \<or> 1 < (- 0.1 :: real))
   \<and> Player (- 0.1) False = Inl ValueError"
proof -
  have high: "(1.5 :: real) < 0 \<or> 1 < (1.5 :: real)"
    and low: "(- 0.1 :: real) < 0 \<or> 1 < (- 0.1 :: real)"
    by simp_all
  from high fatal_errors [of "1.5" False] have "Player 1.5 False = Inl ValueError"
    by blast
  moreover from low fatal_errors [of "- 0.1" False] have "Player (- 0.1) False = Inl ValueError"
    by blast
  ultimately show ?thesis
    using high low by blast
qed

end
